theory Spec2Isabelle
  imports Complex_Main
begin

section \<open>Data model of the recommendation service\<close>

text \<open>
  The engine of \<^verbatim>\<open>recommendation_service/core/recommendation_engine.py\<close> is embedded
  function by function. Identifiers (UUIDs) are natural numbers: the code only compares,
  hashes and sorts them. Python floats are modelled as real numbers, the exact arithmetic
  the float code approximates; the one place where the code can produce a value that is not
  a number (the cosine distance of a vector of norm zero) is modelled explicitly by
  \<open>NaN\<close>. Exceptions are values of \<open>pyerror\<close>, and a function that can raise returns
  \<open>pyerror + 'a\<close>.
\<close>

type_synonym uuid = nat

datatype pyerror = ValueError | KeyError | CommitError

datatype npfloat = NaN | Fin real

text \<open>\<^verbatim>\<open>class RecommendationType(str, Enum)\<close> of \<^verbatim>\<open>schemas/recommendation.py\<close>.\<close>

datatype RecommendationType = COLLABORATIVE | CONTENT_BASED | HYBRID

text \<open>The values a metadata dictionary of the engine holds: floats and strings.\<close>

datatype mval = MFloat real | MStr string

type_synonym metadata_dict = "string \<rightharpoonup> mval"

record RecommendationResponse =
  content_id :: uuid
  score :: real
  recommendation_type :: RecommendationType
  metadata :: metadata_dict

text \<open>
  The rows of \<^verbatim>\<open>models/recommendation.py\<close>. \<open>interaction_type\<close> is the
  \<^verbatim>\<open>String\<close> column of the table: any string can be stored in it. The metadata
  of a feature vector is read by the engine through \<^verbatim>\<open>.astext\<close> only, so it is a
  map from keys to strings.
\<close>

record UserPreference =
  up_user_id :: uuid
  preferred_subjects :: "string list"
  preferred_content_types :: "string list"
  preferred_difficulty_levels :: "string list"
  learning_style :: "string option"
  interests :: "string list"

record UserContentInteraction =
  uci_user_id :: uuid
  uci_content_id :: uuid
  interaction_type :: string
  engagement_score :: real
  created_at :: int

record ContentFeatureVector =
  cfv_content_id :: uuid
  feature_vector :: "real list"
  cfv_metadata :: "string \<rightharpoonup> string"

record RecommendationHistory =
  rh_user_id :: uuid
  rh_content_id :: uuid
  rh_recommendation_type :: RecommendationType
  rh_score :: real
  rh_metadata :: metadata_dict

text \<open>
  The \<^verbatim>\<open>AsyncSession\<close> the engine holds: the tables it reads, the history rows it
  has added and not yet committed (\<open>pending\<close>), the committed history, and whether the
  storage accepts the next commit.
\<close>

record database =
  user_preferences :: "UserPreference list"
  user_content_interactions :: "UserContentInteraction list"
  content_feature_vectors :: "ContentFeatureVector list"
  recommendation_history :: "RecommendationHistory list"
  pending :: "RecommendationHistory list"
  commit_succeeds :: bool

section \<open>Python containers\<close>

text \<open>
  A Python \<^verbatim>\<open>dict\<close> keeps its keys in insertion order and keeps the position of a
  key that is assigned again: an association list with \<open>dict_set\<close>.
\<close>

type_synonym ('k, 'v) pydict = "('k \<times> 'v) list"

fun dict_set :: "'k \<Rightarrow> 'v \<Rightarrow> ('k, 'v) pydict \<Rightarrow> ('k, 'v) pydict" where
  "dict_set k v [] = [(k, v)]"
| "dict_set k v ((k', v') # d) = (if k = k' then (k, v) # d else (k', v') # dict_set k v d)"

text \<open>\<^verbatim>\<open>xs[:n]\<close>: a negative \<open>n\<close> counts from the end of the list.\<close>

definition py_slice_to :: "int \<Rightarrow> 'a list \<Rightarrow> 'a list" where
  "py_slice_to n xs =
     (if 0 \<le> n then take (nat n) xs else take (length xs - nat (- n)) xs)"

text \<open>
  \<^verbatim>\<open>recommendations.sort(key=lambda x: x.score, reverse=True)\<close>: Python's sort is
  stable, and with \<^verbatim>\<open>reverse=True\<close> equal elements keep their order, which is the
  stable ascending sort on the negated key.
\<close>

definition sort_by_score_desc :: "RecommendationResponse list \<Rightarrow> RecommendationResponse list" where
  "sort_by_score_desc recs = sort_key (\<lambda>x. - score x) recs"

section \<open>The hybrid merger\<close>

record merged_entry =
  me_content_id :: uuid
  content_based_score :: real
  collaborative_score :: real
  me_metadata :: metadata_dict

text \<open>The first loop of \<^verbatim>\<open>_hybrid_merge_recommendations\<close>, one iteration.\<close>

definition merge_content_based_step ::
  "(uuid, merged_entry) pydict \<Rightarrow> RecommendationResponse \<Rightarrow> (uuid, merged_entry) pydict" where
  "merge_content_based_step merged_recs r =
     dict_set (content_id r)
       \<lparr>me_content_id = content_id r, content_based_score = score r,
        collaborative_score = 0, me_metadata = metadata r\<rparr> merged_recs"

text \<open>
  The second loop, one iteration. \<^verbatim>\<open>dict.update\<close> is map override \<open>++\<close>: the keys of
  the collaborative metadata win.
\<close>

definition merge_collaborative_step ::
  "(uuid, merged_entry) pydict \<Rightarrow> RecommendationResponse \<Rightarrow> (uuid, merged_entry) pydict" where
  "merge_collaborative_step merged_recs r =
     (case map_of merged_recs (content_id r) of
        Some e \<Rightarrow>
          dict_set (content_id r)
            (e\<lparr>collaborative_score := score r, me_metadata := me_metadata e ++ metadata r\<rparr>)
            merged_recs
      | None \<Rightarrow>
          dict_set (content_id r)
            \<lparr>me_content_id = content_id r, content_based_score = 0,
             collaborative_score = score r, me_metadata = metadata r\<rparr> merged_recs)"

text \<open>
  The third loop, one iteration: the metadata literal lists the merger's four keys first
  and spreads \<^verbatim>\<open>**data["metadata"]\<close> after them, so the spread keys win.
\<close>

definition hybrid_recommendation :: "uuid \<times> merged_entry \<Rightarrow> RecommendationResponse" where
  "hybrid_recommendation item =
     (let data = snd item;
          content_based_weight = 0.6;
          collaborative_weight = 0.4;
          hybrid_score = content_based_score data * content_based_weight
                       + collaborative_score data * collaborative_weight
      in \<lparr>content_id = fst item, score = hybrid_score, recommendation_type = HYBRID,
          metadata =
            [''hybrid_score'' \<mapsto> MFloat hybrid_score,
             ''content_based_score'' \<mapsto> MFloat (content_based_score data),
             ''collaborative_score'' \<mapsto> MFloat (collaborative_score data),
             ''recommendation_source'' \<mapsto> MStr ''hybrid'']
            ++ me_metadata data\<rparr>)"

definition merged_recs_of ::
  "RecommendationResponse list \<Rightarrow> RecommendationResponse list \<Rightarrow> (uuid, merged_entry) pydict" where
  "merged_recs_of content_based_recs collaborative_recs =
     foldl merge_collaborative_step
       (foldl merge_content_based_step [] content_based_recs) collaborative_recs"

definition hybrid_merge_recommendations ::
  "RecommendationResponse list \<Rightarrow> RecommendationResponse list \<Rightarrow> int \<Rightarrow> RecommendationResponse list" where
  "hybrid_merge_recommendations content_based_recs collaborative_recs limit =
     py_slice_to limit
       (sort_by_score_desc
          (map hybrid_recommendation (merged_recs_of content_based_recs collaborative_recs)))"

section \<open>Vectors and similarity\<close>

text \<open>
  The numpy operations of \<^verbatim>\<open>_calculate_user_profile\<close> on one-dimensional arrays.
  \<open>np_iadd\<close> is \<^verbatim>\<open>a += b\<close>: the right operand is broadcast to the shape of the
  left one (equal lengths, or a right operand of length one), and every other pair of
  shapes raises \<^verbatim>\<open>ValueError\<close>. \<open>np_add\<close> is \<^verbatim>\<open>a + b\<close>, which broadcasts
  either operand.
\<close>

definition np_scale :: "real list \<Rightarrow> real \<Rightarrow> real list" where
  "np_scale v w = map (\<lambda>x. x * w) v"

definition np_div :: "real list \<Rightarrow> real \<Rightarrow> real list" where
  "np_div v w = map (\<lambda>x. x / w) v"

definition np_iadd :: "real list \<Rightarrow> real list \<Rightarrow> pyerror + real list" where
  "np_iadd a b =
     (if length a = length b then Inr (map2 (+) a b)
      else if length b = 1 then Inr (map (\<lambda>x. x + hd b) a)
      else Inl ValueError)"

definition np_add :: "real list \<Rightarrow> real list \<Rightarrow> pyerror + real list" where
  "np_add a b =
     (if length a = length b then Inr (map2 (+) a b)
      else if length b = 1 then Inr (map (\<lambda>x. x + hd b) a)
      else if length a = 1 then Inr (map (\<lambda>y. hd a + y) b)
      else Inl ValueError)"

definition dot :: "real list \<Rightarrow> real list \<Rightarrow> real" where
  "dot u v = sum_list (map2 (*) u v)"

text \<open>
  \<^verbatim>\<open>scipy.spatial.distance.cosine\<close>, the library routine the engine imports: the
  distance \<open>1 - u\<bullet>v / sqrt ((u\<bullet>u) * (v\<bullet>v))\<close>, clipped to \<open>[0, 2]\<close>. Two vectors of
  unequal length raise \<^verbatim>\<open>ValueError\<close> (the dot product refuses the shapes); a vector
  of norm zero divides zero by zero, which is not a number. The arithmetic here is exact:
  the rounding of the float operations, and the overflow or underflow of \<open>u\<bullet>u * v\<bullet>v\<close>
  (which makes the float result not-a-number or \<open>0\<close> for very large or very small
  entries), are not part of the model, so no property below is stated about the number a
  comparison of two non-empty vectors returns.
\<close>

definition cosine :: "real list \<Rightarrow> real list \<Rightarrow> pyerror + npfloat" where
  "cosine u v =
     (if length u \<noteq> length v then Inl ValueError
      else if dot u u * dot v v = 0 then Inr NaN
      else Inr (Fin (max 0 (min 2 (1 - dot u v / sqrt (dot u u * dot v v))))))"

text \<open>\<^verbatim>\<open>1 - d\<close> and \<^verbatim>\<open>x > 0\<close> on floats: not-a-number stays, and compares false.\<close>

fun one_minus :: "npfloat \<Rightarrow> npfloat" where
  "one_minus NaN = NaN"
| "one_minus (Fin x) = Fin (1 - x)"

fun is_positive :: "npfloat \<Rightarrow> bool" where
  "is_positive NaN = False"
| "is_positive (Fin x) = (0 < x)"

fun the_real :: "npfloat \<Rightarrow> real" where
  "the_real NaN = 0"
| "the_real (Fin x) = x"

definition calculate_similarity_score :: "real list \<Rightarrow> real list \<Rightarrow> pyerror + npfloat" where
  "calculate_similarity_score vec1 vec2 =
     (if vec1 = [] \<or> vec2 = [] then Inr (Fin 0.0)
      else case cosine vec1 vec2 of
             Inl e \<Rightarrow> Inl e
           | Inr d \<Rightarrow> Inr (one_minus d))"

section \<open>Interaction weights\<close>

text \<open>
  \<^verbatim>\<open>self.interaction_weights\<close>: the keys are the members of the string enumeration
  \<^verbatim>\<open>InteractionType\<close>, which hash and compare as their string values, so the stored
  column value looks the table up directly. \<open>interaction_weights_get\<close> is
  \<^verbatim>\<open>self.interaction_weights.get(t, 1.0)\<close>.
\<close>

definition interaction_weights :: "string \<rightharpoonup> real" where
  "interaction_weights =
     [''view'' \<mapsto> 1.0, ''complete'' \<mapsto> 3.0, ''like'' \<mapsto> 2.0, ''bookmark'' \<mapsto> 2.5]"

definition interaction_weights_get :: "string \<Rightarrow> real" where
  "interaction_weights_get t = (case interaction_weights t of Some w \<Rightarrow> w | None \<Rightarrow> 1.0)"

section \<open>Queries\<close>

definition get_user_preferences :: "database \<Rightarrow> uuid \<Rightarrow> UserPreference option" where
  "get_user_preferences db uid = find (\<lambda>p. up_user_id p = uid) (user_preferences db)"

text \<open>Ordered by \<^verbatim>\<open>created_at\<close>, newest first.\<close>

definition get_user_interactions :: "database \<Rightarrow> uuid \<Rightarrow> UserContentInteraction list" where
  "get_user_interactions db uid =
     sort_key (\<lambda>i. - created_at i)
       (filter (\<lambda>i. uci_user_id i = uid) (user_content_interactions db))"

text \<open>
  One optional filter of \<^verbatim>\<open>_get_content_feature_vectors\<close>: a filter that is
  \<^verbatim>\<open>None\<close> or the empty string is not applied; otherwise the metadata field must
  be present and equal.
\<close>

definition filter_matches :: "string \<Rightarrow> string option \<Rightarrow> ContentFeatureVector \<Rightarrow> bool" where
  "filter_matches k flt v =
     (case flt of
        None \<Rightarrow> True
      | Some s \<Rightarrow> if s = [] then True else cfv_metadata v k = Some s)"

definition vectors_dict :: "ContentFeatureVector list \<Rightarrow> (uuid, real list) pydict" where
  "vectors_dict rows = foldl (\<lambda>d v. dict_set (cfv_content_id v) (feature_vector v) d) [] rows"

definition get_content_feature_vectors ::
  "database \<Rightarrow> string option \<Rightarrow> string option \<Rightarrow> string option \<Rightarrow> (uuid, real list) pydict" where
  "get_content_feature_vectors db content_type subject difficulty_level =
     vectors_dict
       (filter (\<lambda>v. filter_matches ''content_type'' content_type v
                  \<and> filter_matches ''subject'' subject v
                  \<and> filter_matches ''difficulty_level'' difficulty_level v)
          (content_feature_vectors db))"

section \<open>The profile builder\<close>

text \<open>
  \<^verbatim>\<open>_calculate_preference_vector\<close> is a placeholder of the source that returns
  \<^verbatim>\<open>None\<close> for every preference record.
\<close>

definition calculate_preference_vector :: "UserPreference \<Rightarrow> real list option" where
  "calculate_preference_vector user_prefs = None"

text \<open>
  The loop of \<^verbatim>\<open>_calculate_user_profile\<close> over the interactions, with its two
  variables \<^verbatim>\<open>profile_vector\<close> (\<open>None\<close> until the first vector is found) and
  \<^verbatim>\<open>total_weight\<close>.
\<close>

fun profile_loop ::
  "(uuid, real list) pydict \<Rightarrow> UserContentInteraction list \<Rightarrow> real list option \<times> real
     \<Rightarrow> pyerror + (real list option \<times> real)" where
  "profile_loop content_vectors [] st = Inr st"
| "profile_loop content_vectors (interaction # rest) (profile_vector, total_weight) =
     (case map_of content_vectors (uci_content_id interaction) of
        None \<Rightarrow> profile_loop content_vectors rest (profile_vector, total_weight)
      | Some vector \<Rightarrow>
          (let weight = interaction_weights_get (interaction_type interaction)
                        * engagement_score interaction
           in case profile_vector of
                None \<Rightarrow>
                  profile_loop content_vectors rest
                    (Some (np_scale vector weight), total_weight + weight)
              | Some p \<Rightarrow>
                  (case np_iadd p (np_scale vector weight) of
                     Inl e \<Rightarrow> Inl e
                   | Inr p' \<Rightarrow>
                       profile_loop content_vectors rest (Some p', total_weight + weight))))"

text \<open>The vectors of the interacted content, as the dictionary the source builds.\<close>

definition interacted_content_vectors ::
  "database \<Rightarrow> UserContentInteraction list \<Rightarrow> (uuid, real list) pydict" where
  "interacted_content_vectors db interactions =
     (let interacted_content_ids = map uci_content_id interactions
      in if interacted_content_ids \<noteq> []
         then vectors_dict
                (filter (\<lambda>v. cfv_content_id v \<in> set interacted_content_ids)
                   (content_feature_vectors db))
         else [])"

text \<open>What follows the loop: the division, and the preference branch.\<close>

definition finish_profile ::
  "UserPreference option \<Rightarrow> real list option \<times> real \<Rightarrow> pyerror + real list" where
  "finish_profile user_prefs st =
     (let profile_vector =
            (case fst st of
               Some p \<Rightarrow> if 0 < snd st then Some (np_div p (snd st)) else Some p
             | None \<Rightarrow> None)
      in case (user_prefs, profile_vector) of
           (Some prefs, Some p) \<Rightarrow>
             (case calculate_preference_vector prefs of
                None \<Rightarrow> Inr p
              | Some pref_vector \<Rightarrow>
                  if pref_vector = [] then Inr p
                  else (case np_add p pref_vector of
                          Inl e \<Rightarrow> Inl e
                        | Inr s \<Rightarrow> Inr (np_div s 2)))
         | (Some prefs, None) \<Rightarrow>
             (case calculate_preference_vector prefs of
                None \<Rightarrow> Inr []
              | Some pref_vector \<Rightarrow> if pref_vector = [] then Inr [] else Inr pref_vector)
         | (None, Some p) \<Rightarrow> Inr p
         | (None, None) \<Rightarrow> Inr [])"

definition calculate_user_profile ::
  "database \<Rightarrow> uuid \<Rightarrow> UserContentInteraction list \<Rightarrow> UserPreference option
     \<Rightarrow> pyerror + real list" where
  "calculate_user_profile db user_id interactions user_prefs =
     (if interactions = [] \<and> user_prefs = None then Inr []
      else case profile_loop (interacted_content_vectors db interactions) interactions (None, 0.0) of
             Inl e \<Rightarrow> Inl e
           | Inr st \<Rightarrow> finish_profile user_prefs st)"

section \<open>The content-based scorer\<close>

definition content_based_recommendation :: "uuid \<Rightarrow> real \<Rightarrow> RecommendationResponse" where
  "content_based_recommendation cid similarity =
     \<lparr>content_id = cid, score = similarity, recommendation_type = CONTENT_BASED,
      metadata = [''similarity_score'' \<mapsto> MFloat similarity,
                  ''recommendation_source'' \<mapsto> MStr ''content_based'']\<rparr>"

text \<open>
  The loop of \<^verbatim>\<open>_get_content_based_recommendations\<close> over the items of the
  dictionary of candidate vectors; \<open>recommendations\<close> is the list built so far.
\<close>

fun content_based_loop ::
  "UserContentInteraction list \<Rightarrow> real list \<Rightarrow> (uuid, real list) pydict
     \<Rightarrow> RecommendationResponse list \<Rightarrow> pyerror + RecommendationResponse list" where
  "content_based_loop interactions user_profile [] recommendations = Inr recommendations"
| "content_based_loop interactions user_profile ((cid, fv) # rest) recommendations =
     (if cid \<in> uci_content_id ` set interactions
      then content_based_loop interactions user_profile rest recommendations
      else case calculate_similarity_score user_profile fv of
             Inl e \<Rightarrow> Inl e
           | Inr similarity \<Rightarrow>
               if is_positive similarity
               then content_based_loop interactions user_profile rest
                      (recommendations @ [content_based_recommendation cid (the_real similarity)])
               else content_based_loop interactions user_profile rest recommendations)"

definition get_content_based_recommendations ::
  "database \<Rightarrow> uuid \<Rightarrow> UserPreference option \<Rightarrow> string option \<Rightarrow> string option
     \<Rightarrow> string option \<Rightarrow> int \<Rightarrow> pyerror + RecommendationResponse list" where
  "get_content_based_recommendations db user_id user_prefs content_type subject
       difficulty_level limit =
     (let interactions = get_user_interactions db user_id
      in if interactions = [] \<and> user_prefs = None then Inr []
         else let content_vectors =
                    get_content_feature_vectors db content_type subject difficulty_level
              in if content_vectors = [] then Inr []
                 else case calculate_user_profile db user_id interactions user_prefs of
                        Inl e \<Rightarrow> Inl e
                      | Inr user_profile \<Rightarrow>
                          (case content_based_loop interactions user_profile content_vectors [] of
                             Inl e \<Rightarrow> Inl e
                           | Inr recommendations \<Rightarrow>
                               Inr (py_slice_to limit (sort_by_score_desc recommendations))))"

section \<open>The collaborative scorer\<close>

text \<open>
  \<^verbatim>\<open>_create_interaction_vector\<close>: one position per content id of the set, in sorted
  order; a later interaction with the same content overwrites the position.
\<close>

definition content_id_to_index :: "uuid set \<Rightarrow> uuid \<rightharpoonup> nat" where
  "content_id_to_index content_ids =
     map_of (zip (sorted_list_of_set content_ids) [0 ..< card content_ids])"

definition create_interaction_vector :: "UserContentInteraction list \<Rightarrow> uuid set \<Rightarrow> real list" where
  "create_interaction_vector interactions content_ids =
     foldl (\<lambda>vector interaction.
              case content_id_to_index content_ids (uci_content_id interaction) of
                Some idx \<Rightarrow>
                  vector[idx := interaction_weights_get (interaction_type interaction)
                                * engagement_score interaction]
              | None \<Rightarrow> vector)
       (replicate (card content_ids) 0.0) interactions"

text \<open>Grouping the other users' interactions by user, in first-seen order.\<close>

definition group_by_user ::
  "UserContentInteraction list \<Rightarrow> (uuid, UserContentInteraction list) pydict" where
  "group_by_user other_users_interactions =
     foldl (\<lambda>m interaction.
              case map_of m (uci_user_id interaction) of
                None \<Rightarrow> dict_set (uci_user_id interaction) [interaction] m
              | Some l \<Rightarrow> dict_set (uci_user_id interaction) (l @ [interaction]) m)
       [] other_users_interactions"

fun similar_users_loop ::
  "real list \<Rightarrow> uuid set \<Rightarrow> (uuid, UserContentInteraction list) pydict
     \<Rightarrow> (uuid \<times> real) list \<Rightarrow> pyerror + (uuid \<times> real) list" where
  "similar_users_loop target_user_vector ids [] user_similarities = Inr user_similarities"
| "similar_users_loop target_user_vector ids ((other_user_id, interactions) # rest)
       user_similarities =
     (case calculate_similarity_score target_user_vector
             (create_interaction_vector interactions ids) of
        Inl e \<Rightarrow> Inl e
      | Inr similarity \<Rightarrow>
          if is_positive similarity
          then similar_users_loop target_user_vector ids rest
                 (user_similarities @ [(other_user_id, the_real similarity)])
          else similar_users_loop target_user_vector ids rest user_similarities)"

definition find_similar_users ::
  "database \<Rightarrow> uuid \<Rightarrow> UserContentInteraction list \<Rightarrow> pyerror + (uuid \<times> real) list" where
  "find_similar_users db user_id user_interactions =
     (let interacted_content_ids = uci_content_id ` set user_interactions
      in if interacted_content_ids = {} then Inr []
         else let other_users_interactions =
                    filter (\<lambda>i. uci_content_id i \<in> interacted_content_ids
                                \<and> uci_user_id i \<noteq> user_id)
                      (user_content_interactions db);
                  user_interactions_map = group_by_user other_users_interactions;
                  target_user_vector =
                    create_interaction_vector user_interactions interacted_content_ids
              in case similar_users_loop target_user_vector interacted_content_ids
                        user_interactions_map [] of
                   Inl e \<Rightarrow> Inl e
                 | Inr user_similarities \<Rightarrow>
                     Inr (take 10 (sort_key (\<lambda>x. - snd x) user_similarities)))"

text \<open>
  The loop of \<^verbatim>\<open>_get_recommendations_from_similar_users\<close> that accumulates
  \<^verbatim>\<open>content_scores\<close>. \<^verbatim>\<open>similar_user_weights[...]\<close> raises
  \<^verbatim>\<open>KeyError\<close> on a user that is not a key. A content id that is not yet a key
  is first stored with \<^verbatim>\<open>0.0\<close> and then increased, which is one assignment of
  \<open>0.0 + sc\<close> at a new key.
\<close>

fun content_scores_loop ::
  "uuid set \<Rightarrow> (uuid, real) pydict \<Rightarrow> UserContentInteraction list \<Rightarrow> (uuid, real) pydict
     \<Rightarrow> pyerror + (uuid, real) pydict" where
  "content_scores_loop user_content_ids similar_user_weights [] content_scores =
     Inr content_scores"
| "content_scores_loop user_content_ids similar_user_weights (interaction # rest) content_scores =
     (if uci_content_id interaction \<in> user_content_ids
      then content_scores_loop user_content_ids similar_user_weights rest content_scores
      else case map_of similar_user_weights (uci_user_id interaction) of
             None \<Rightarrow> Inl KeyError
           | Some user_weight \<Rightarrow>
               (let interaction_weight =
                      interaction_weights_get (interaction_type interaction)
                      * engagement_score interaction;
                    sc = user_weight * interaction_weight;
                    old = (case map_of content_scores (uci_content_id interaction) of
                             None \<Rightarrow> 0.0
                           | Some x \<Rightarrow> x)
                in content_scores_loop user_content_ids similar_user_weights rest
                     (dict_set (uci_content_id interaction) (old + sc) content_scores)))"

definition collaborative_recommendation :: "uuid \<times> real \<Rightarrow> RecommendationResponse" where
  "collaborative_recommendation item =
     \<lparr>content_id = fst item, score = snd item, recommendation_type = COLLABORATIVE,
      metadata = [''collaborative_score'' \<mapsto> MFloat (snd item),
                  ''recommendation_source'' \<mapsto> MStr ''collaborative'']\<rparr>"

text \<open>
  The three filter parameters are accepted and, as in the source, not read by the body.
\<close>

definition get_recommendations_from_similar_users ::
  "database \<Rightarrow> uuid \<Rightarrow> (uuid \<times> real) list \<Rightarrow> string option \<Rightarrow> string option
     \<Rightarrow> string option \<Rightarrow> pyerror + RecommendationResponse list" where
  "get_recommendations_from_similar_users db user_id similar_users content_type subject
       difficulty_level =
     (let user_interactions = get_user_interactions db user_id;
          user_content_ids = uci_content_id ` set user_interactions;
          similar_user_ids = map fst similar_users;
          similar_user_weights = foldl (\<lambda>d u. dict_set (fst u) (snd u) d) [] similar_users;
          similar_users_interactions =
            filter (\<lambda>i. uci_user_id i \<in> set similar_user_ids) (user_content_interactions db)
      in case content_scores_loop user_content_ids similar_user_weights
                similar_users_interactions [] of
           Inl e \<Rightarrow> Inl e
         | Inr content_scores \<Rightarrow> Inr (map collaborative_recommendation content_scores))"

definition get_collaborative_recommendations ::
  "database \<Rightarrow> uuid \<Rightarrow> string option \<Rightarrow> string option \<Rightarrow> string option \<Rightarrow> int
     \<Rightarrow> pyerror + RecommendationResponse list" where
  "get_collaborative_recommendations db user_id content_type subject difficulty_level limit =
     (let user_interactions = get_user_interactions db user_id
      in if user_interactions = [] then Inr []
         else case find_similar_users db user_id user_interactions of
                Inl e \<Rightarrow> Inl e
              | Inr similar_users \<Rightarrow>
                  if similar_users = [] then Inr []
                  else (case get_recommendations_from_similar_users db user_id similar_users
                               content_type subject difficulty_level of
                          Inl e \<Rightarrow> Inl e
                        | Inr recommendations \<Rightarrow>
                            Inr (py_slice_to limit (sort_by_score_desc recommendations))))"

section \<open>Recording the history and the request\<close>

definition history_of :: "uuid \<Rightarrow> RecommendationResponse \<Rightarrow> RecommendationHistory" where
  "history_of user_id r =
     \<lparr>rh_user_id = user_id, rh_content_id = content_id r,
      rh_recommendation_type = recommendation_type r, rh_score = score r,
      rh_metadata = metadata r\<rparr>"

text \<open>
  \<^verbatim>\<open>self.db.add\<close> puts a row among the pending ones; \<^verbatim>\<open>self.db.commit()\<close>
  writes them, or raises when the storage refuses.
\<close>

definition db_add :: "database \<Rightarrow> RecommendationHistory \<Rightarrow> database" where
  "db_add db h = db\<lparr>pending := pending db @ [h]\<rparr>"

definition db_commit :: "database \<Rightarrow> pyerror + database" where
  "db_commit db =
     (if commit_succeeds db
      then Inr (db\<lparr>recommendation_history := recommendation_history db @ pending db,
                    pending := []\<rparr>)
      else Inl CommitError)"

definition record_recommendations ::
  "database \<Rightarrow> uuid \<Rightarrow> RecommendationResponse list \<Rightarrow> pyerror + database" where
  "record_recommendations db user_id recommendations =
     db_commit (foldl (\<lambda>d r. db_add d (history_of user_id r)) db recommendations)"

text \<open>
  \<^verbatim>\<open>get_recommendations\<close>: the four awaited calls in the order of the source, none of
  them inside a \<^verbatim>\<open>try\<close>; an exception of any of them leaves the function.
\<close>

definition get_recommendations ::
  "database \<Rightarrow> uuid \<Rightarrow> string option \<Rightarrow> string option \<Rightarrow> string option \<Rightarrow> int
     \<Rightarrow> pyerror + (RecommendationResponse list \<times> database)" where
  "get_recommendations db user_id content_type subject difficulty_level limit =
     (let user_prefs = get_user_preferences db user_id
      in case get_content_based_recommendations db user_id user_prefs content_type subject
                difficulty_level limit of
           Inl e \<Rightarrow> Inl e
         | Inr content_based_recs \<Rightarrow>
             (case get_collaborative_recommendations db user_id content_type subject
                     difficulty_level limit of
                Inl e \<Rightarrow> Inl e
              | Inr collab_recs \<Rightarrow>
                  (let final_recs =
                         hybrid_merge_recommendations content_based_recs collab_recs limit
                   in case record_recommendations db user_id final_recs of
                        Inl e \<Rightarrow> Inl e
                      | Inr db' \<Rightarrow> Inr (final_recs, db'))))"

section \<open>Auxiliary definitions for the properties\<close>

text \<open>
  The component score the merger is specified with: the score of the last entry of a result
  list with the given content id (a later entry of a list overwrites an earlier one in the
  merger's dictionary), and \<open>0\<close> when the list has no entry with that id.
\<close>

definition component_score :: "RecommendationResponse list \<Rightarrow> uuid \<Rightarrow> real" where
  "component_score recs cid =
     (case find (\<lambda>r. content_id r = cid) (rev recs) of Some r \<Rightarrow> score r | None \<Rightarrow> 0)"

text \<open>
  The invariant of the merger's dictionary after the content-based list \<open>cb\<close> and the
  collaborative list \<open>co\<close> have been processed.
\<close>

definition merged_inv ::
  "RecommendationResponse list \<Rightarrow> RecommendationResponse list \<Rightarrow> (uuid, merged_entry) pydict \<Rightarrow> bool" where
  "merged_inv cb co m =
     (distinct (map fst m) \<and>
      (\<forall>k e. map_of m k = Some e \<longrightarrow>
               content_based_score e = component_score cb k
             \<and> collaborative_score e = component_score co k) \<and>
      (\<forall>k. map_of m k = None \<longrightarrow> component_score cb k = 0 \<and> component_score co k = 0))"

text \<open>
  The \<open>recommendation_source\<close> entry of a metadata dictionary names one of the two component
  scorers.
\<close>

definition component_source :: "metadata_dict \<Rightarrow> bool" where
  "component_source m =
     (m ''recommendation_source'' = Some (MStr ''content_based'')
      \<or> m ''recommendation_source'' = Some (MStr ''collaborative''))"

text \<open>Every entry of the merger's dictionary carries a component scorer's source.\<close>

definition entries_source :: "(uuid, merged_entry) pydict \<Rightarrow> bool" where
  "entries_source m = (\<forall>e \<in> snd ` set m. component_source (me_metadata e))"

text \<open>
  The stored vectors the loop of the profile builder finds, in the order of the
  interactions; the weight of one interaction.
\<close>

definition found_vectors ::
  "(uuid, real list) pydict \<Rightarrow> UserContentInteraction list \<Rightarrow> real list list" where
  "found_vectors content_vectors interactions =
     List.map_filter (\<lambda>i. map_of content_vectors (uci_content_id i)) interactions"

definition interaction_weight :: "UserContentInteraction \<Rightarrow> real" where
  "interaction_weight i = interaction_weights_get (interaction_type i) * engagement_score i"

text \<open>
  An interaction whose stored type is not a key of the weight table, read as a view.
\<close>

definition as_view :: "UserContentInteraction \<Rightarrow> UserContentInteraction" where
  "as_view i =
     (if interaction_type i \<in> {''view'', ''complete'', ''like'', ''bookmark''} then i
      else i\<lparr>interaction_type := ''view''\<rparr>)"



section \<open>Example data\<close>

definition example_content_based_recs :: "RecommendationResponse list" where
  "example_content_based_recs =
     [content_based_recommendation 1 (1/2), content_based_recommendation 3 (1/4)]"

definition example_collaborative_recs :: "RecommendationResponse list" where
  "example_collaborative_recs =
     [collaborative_recommendation (1, 1), collaborative_recommendation (2, 3)]"

text \<open>
  Two users who both liked content 10; user 8 also completed content 20, a video. The
  flag is whether the storage accepts the commit.
\<close>

definition example_interactions :: "UserContentInteraction list" where
  "example_interactions =
     [\<lparr>uci_user_id = 7, uci_content_id = 10, interaction_type = ''like'',
       engagement_score = 1, created_at = 1\<rparr>,
      \<lparr>uci_user_id = 8, uci_content_id = 10, interaction_type = ''like'',
       engagement_score = 1, created_at = 2\<rparr>,
      \<lparr>uci_user_id = 8, uci_content_id = 20, interaction_type = ''complete'',
       engagement_score = 1, created_at = 3\<rparr>]"

definition example_vectors :: "ContentFeatureVector list" where
  "example_vectors =
     [\<lparr>cfv_content_id = 10, feature_vector = [1, 0],
       cfv_metadata = [''content_type'' \<mapsto> ''story'']\<rparr>,
      \<lparr>cfv_content_id = 20, feature_vector = [1, 0],
       cfv_metadata = [''content_type'' \<mapsto> ''video'']\<rparr>]"

definition example_db :: "bool \<Rightarrow> database" where
  "example_db ok =
     \<lparr>user_preferences = [], user_content_interactions = example_interactions,
      content_feature_vectors = example_vectors, recommendation_history = [],
      pending = [], commit_succeeds = ok\<rparr>"

definition example_final_recs :: "RecommendationResponse list" where
  "example_final_recs =
     hybrid_merge_recommendations [content_based_recommendation 20 1]
       [collaborative_recommendation (20, 3)] 10"

definition example_mismatch_vectors :: "ContentFeatureVector list" where
  "example_mismatch_vectors =
     [\<lparr>cfv_content_id = 10, feature_vector = [1, 0],
       cfv_metadata = [''content_type'' \<mapsto> ''story'']\<rparr>,
      \<lparr>cfv_content_id = 20, feature_vector = [1],
       cfv_metadata = [''content_type'' \<mapsto> ''video'']\<rparr>,
      \<lparr>cfv_content_id = 30, feature_vector = [1, 0],
       cfv_metadata = [''content_type'' \<mapsto> ''story'']\<rparr>]"

definition example_mismatch_db :: database where
  "example_mismatch_db =
     \<lparr>user_preferences = [], user_content_interactions = example_interactions,
      content_feature_vectors = example_mismatch_vectors, recommendation_history = [],
      pending = [], commit_succeeds = True\<rparr>"

definition example_zero_db :: database where
  "example_zero_db =
     \<lparr>user_preferences = [],
      user_content_interactions =
        [\<lparr>uci_user_id = 7, uci_content_id = 10, interaction_type = ''view'',
          engagement_score = 0, created_at = 1\<rparr>],
      content_feature_vectors = example_vectors, recommendation_history = [],
      pending = [], commit_succeeds = True\<rparr>"

definition example_share :: UserContentInteraction where
  "example_share =
     \<lparr>uci_user_id = 7, uci_content_id = 10, interaction_type = ''share'',
      engagement_score = 1 / 2, created_at = 1\<rparr>"

section \<open>Properties of the hybrid merger\<close>

lemma map_of_dict_set: "map_of (dict_set k v d) = (map_of d)(k \<mapsto> v)"
  by (induction d) (auto simp: fun_eq_iff)

lemma keys_dict_set: "set (map fst (dict_set k v d)) = insert k (set (map fst d))"
proof (induction d)
  case Nil
  show ?case by simp
next
  case (Cons a d)
  obtain k' v' where a: "a = (k', v')" by (cases a)
  with Cons show ?case by (simp add: insert_commute)
qed

lemma distinct_dict_set: "distinct (map fst d) \<Longrightarrow> distinct (map fst (dict_set k v d))"
proof (induction d)
  case Nil
  then show ?case by simp
next
  case (Cons a d)
  obtain k' v' where a: "a = (k', v')" by (cases a)
  have "set (map fst (dict_set k v d)) = insert k (set (map fst d))" by (rule keys_dict_set)
  with Cons a show ?case by simp
qed

lemma component_score_Nil: "component_score [] k = 0"
  by (simp add: component_score_def)

lemma component_score_snoc:
  "component_score (rs @ [r]) k = (if content_id r = k then score r else component_score rs k)"
  by (simp add: component_score_def)

lemma merged_inv_content_based_step:
  assumes "merged_inv cb [] m"
  shows "merged_inv (cb @ [r]) [] (merge_content_based_step m r)"
  using assms
  unfolding merged_inv_def merge_content_based_step_def
  by (simp add: map_of_dict_set distinct_dict_set component_score_snoc component_score_Nil)

lemma merged_inv_content_based:
  "merged_inv cb [] (foldl merge_content_based_step [] cb)"
proof (induction cb rule: rev_induct)
  case Nil
  show ?case by (simp add: merged_inv_def component_score_Nil)
next
  case (snoc r cb)
  then show ?case by (simp add: merged_inv_content_based_step)
qed

lemma merged_inv_collaborative_step:
  assumes "merged_inv cb co m"
  shows "merged_inv cb (co @ [r]) (merge_collaborative_step m r)"
proof (cases "map_of m (content_id r)")
  case None
  with assms show ?thesis
    unfolding merged_inv_def merge_collaborative_step_def
    by (simp add: map_of_dict_set distinct_dict_set component_score_snoc)
next
  case (Some e)
  with assms show ?thesis
    unfolding merged_inv_def merge_collaborative_step_def
    by (simp add: map_of_dict_set distinct_dict_set component_score_snoc)
qed

lemma merged_inv_collaborative:
  "merged_inv cb [] m0 \<Longrightarrow> merged_inv cb co (foldl merge_collaborative_step m0 co)"
proof (induction co rule: rev_induct)
  case Nil
  then show ?case by simp
next
  case (snoc r co)
  then show ?case by (simp add: merged_inv_collaborative_step)
qed

lemma merged_inv_merged_recs_of: "merged_inv cb co (merged_recs_of cb co)"
  unfolding merged_recs_of_def
  by (rule merged_inv_collaborative) (rule merged_inv_content_based)

lemma set_py_slice_to: "set (py_slice_to n xs) \<subseteq> set xs"
  by (auto simp: py_slice_to_def dest: in_set_takeD)

lemma set_sort_by_score_desc: "set (sort_by_score_desc xs) = set xs"
  by (simp add: sort_by_score_desc_def)

lemma hybrid_merge_subset:
  "set (hybrid_merge_recommendations cb co limit)
     \<subseteq> hybrid_recommendation ` set (merged_recs_of cb co)"
  unfolding hybrid_merge_recommendations_def
  using set_py_slice_to [of limit "sort_by_score_desc (map hybrid_recommendation (merged_recs_of cb co))"]
  by (simp add: set_sort_by_score_desc)

text \<open>
  Claim C6. Every entry the hybrid merger returns has the score
  \<open>0.6 * content_based_score + 0.4 * collaborative_score\<close>, where the two component
  scores are those of the entries with the same content id in the two input lists, and a
  list without such an entry contributes the component score \<open>0\<close>.
\<close>

theorem hybrid_score_formula:
  assumes "r \<in> set (hybrid_merge_recommendations cb co limit)"
  shows "score r = 0.6 * component_score cb (content_id r)
                 + 0.4 * component_score co (content_id r)"
proof -
  from assms hybrid_merge_subset obtain k e
    where ke: "(k, e) \<in> set (merged_recs_of cb co)" and r: "r = hybrid_recommendation (k, e)"
    by fastforce
  have inv: "merged_inv cb co (merged_recs_of cb co)" by (rule merged_inv_merged_recs_of)
  then have "distinct (map fst (merged_recs_of cb co))" by (simp add: merged_inv_def)
  with ke have "map_of (merged_recs_of cb co) k = Some e" by simp
  with inv have "content_based_score e = component_score cb k
               \<and> collaborative_score e = component_score co k"
    by (simp add: merged_inv_def)
  with r show ?thesis by (simp add: hybrid_recommendation_def Let_def)
qed

lemma example_merged:
  "map content_id (hybrid_merge_recommendations example_content_based_recs
       example_collaborative_recs 2) = [2, 1]"
  by (simp add: hybrid_merge_recommendations_def merged_recs_of_def
      example_content_based_recs_def example_collaborative_recs_def
      merge_content_based_step_def merge_collaborative_step_def
      content_based_recommendation_def collaborative_recommendation_def
      hybrid_recommendation_def sort_by_score_desc_def py_slice_to_def Let_def)

theorem hybrid_score_formula_witness:
  "score (hd (hybrid_merge_recommendations example_content_based_recs
                example_collaborative_recs 2))
   = 0.6 * component_score example_content_based_recs 2
   + 0.4 * component_score example_collaborative_recs 2"
proof -
  let ?out = "hybrid_merge_recommendations example_content_based_recs
                example_collaborative_recs 2"
  from example_merged have ne: "?out \<noteq> []" by auto
  then have mem: "hd ?out \<in> set ?out" by simp
  from example_merged ne have "content_id (hd ?out) = 2" by (cases ?out) auto
  with hybrid_score_formula [OF mem] show ?thesis by simp
qed

lemma sorted_wrt_py_slice_to: "sorted_wrt P xs \<Longrightarrow> sorted_wrt P (py_slice_to n xs)"
  by (simp add: py_slice_to_def sorted_wrt_take)

lemma sorted_wrt_sort_by_score_desc:
  "sorted_wrt (\<lambda>a b. score b \<le> score a) (sort_by_score_desc xs)"
proof -
  have "sorted (map (\<lambda>x. - score x) (sort_key (\<lambda>x. - score x) xs))"
    by (rule sorted_sort_key)
  then show ?thesis by (simp add: sort_by_score_desc_def sorted_map)
qed

lemma length_py_slice_to: "0 \<le> n \<Longrightarrow> int (length (py_slice_to n xs)) \<le> n"
  by (simp add: py_slice_to_def)

text \<open>
  Claim C8. The list the hybrid merger returns is sorted in non-increasing order of score,
  and it has at most \<open>limit\<close> entries for every limit a request can carry (the request
  schema admits limits from 1 to 50; the bound is proved for every limit that is not
  negative).
\<close>

theorem hybrid_merge_sorted_bounded:
  "sorted_wrt (\<lambda>a b. score b \<le> score a)
     (hybrid_merge_recommendations content_based_recs collaborative_recs limit)
   \<and> (0 \<le> limit \<longrightarrow>
        int (length (hybrid_merge_recommendations content_based_recs collaborative_recs limit))
          \<le> limit)"
  unfolding hybrid_merge_recommendations_def
  by (simp add: sorted_wrt_py_slice_to sorted_wrt_sort_by_score_desc length_py_slice_to)

theorem hybrid_merge_sorted_bounded_witness:
  "sorted_wrt (\<lambda>a b. score b \<le> score a)
     (hybrid_merge_recommendations example_content_based_recs example_collaborative_recs 2)
   \<and> (0::int) \<le> 2
   \<and> int (length (hybrid_merge_recommendations example_content_based_recs
                     example_collaborative_recs 2)) \<le> 2"
  using hybrid_merge_sorted_bounded [of example_content_based_recs example_collaborative_recs 2]
  by simp

section \<open>The example request, evaluated\<close>

lemma example_db_fields:
  "user_preferences (example_db ok) = []"
  "user_content_interactions (example_db ok) = example_interactions"
  "content_feature_vectors (example_db ok) = example_vectors"
  "recommendation_history (example_db ok) = []"
  "pending (example_db ok) = []"
  "commit_succeeds (example_db ok) = ok"
  by (simp_all add: example_db_def)

lemma example_user_interactions:
  "get_user_interactions (example_db ok) 7 =
     [\<lparr>uci_user_id = 7, uci_content_id = 10, interaction_type = ''like'',
       engagement_score = 1, created_at = 1\<rparr>]"
  by (simp add: get_user_interactions_def example_db_fields example_interactions_def)

lemma example_profile:
  "calculate_user_profile (example_db ok) 7 (get_user_interactions (example_db ok) 7) None
     = Inr [1, 0]"
  by (simp add: example_user_interactions calculate_user_profile_def
      interacted_content_vectors_def vectors_dict_def example_db_fields example_vectors_def
      interaction_weights_get_def interaction_weights_def np_scale_def np_div_def
      finish_profile_def Let_def)

lemma example_cosine: "calculate_similarity_score [1, 0] [1, 0] = Inr (Fin 1)"
  by (simp add: calculate_similarity_score_def cosine_def dot_def)

lemma example_content_based:
  "get_content_based_recommendations (example_db ok) 7 None None None None 10 =
     Inr [content_based_recommendation 20 1]"
  by (simp add: get_content_based_recommendations_def example_user_interactions
      example_profile [unfolded example_user_interactions] Let_def
      get_content_feature_vectors_def filter_matches_def
      vectors_dict_def example_db_fields example_vectors_def example_cosine
      sort_by_score_desc_def py_slice_to_def)

lemma example_similar_users:
  "find_similar_users (example_db ok) 7 (get_user_interactions (example_db ok) 7)
     = Inr [(8, 1)]"
  by (simp add: example_user_interactions find_similar_users_def Let_def
      example_db_fields example_interactions_def group_by_user_def
      create_interaction_vector_def content_id_to_index_def
      interaction_weights_get_def interaction_weights_def
      calculate_similarity_score_def cosine_def dot_def)

lemma example_collaborative:
  "get_collaborative_recommendations (example_db ok) 7 ct sj dl 10 =
     Inr [collaborative_recommendation (20, 3)]"
  by (simp add: get_collaborative_recommendations_def example_user_interactions
      example_similar_users [unfolded example_user_interactions] Let_def
      get_recommendations_from_similar_users_def
      example_db_fields example_interactions_def
      interaction_weights_get_def interaction_weights_def
      sort_by_score_desc_def py_slice_to_def)

section \<open>Recording the history\<close>

lemma pending_foldl_db_add:
  "foldl (\<lambda>d r. db_add d (history_of u r)) db recs
     = db\<lparr>pending := pending db @ map (history_of u) recs\<rparr>"
  by (induction recs arbitrary: db) (simp_all add: db_add_def)

lemma record_recommendations_eq:
  "record_recommendations db u recs =
     (if commit_succeeds db
      then Inr (db\<lparr>recommendation_history :=
                     recommendation_history db @ pending db @ map (history_of u) recs,
                   pending := []\<rparr>)
      else Inl CommitError)"
  by (simp add: record_recommendations_def pending_foldl_db_add db_commit_def)

text \<open>
  Claim C1, as amended. When both scorers return, \<open>get_recommendations\<close> returns the merged
  list together with the storage holding one history row per recommendation if the commit
  succeeds, and fails with the commit's error if the commit of the history rows fails: the
  failure is propagated to the caller, and the list is not returned.
\<close>

theorem history_write_failure_propagates:
  assumes "get_content_based_recommendations db user_id (get_user_preferences db user_id)
             content_type subject difficulty_level limit = Inr content_based_recs"
    and "get_collaborative_recommendations db user_id content_type subject difficulty_level
             limit = Inr collab_recs"
  shows "get_recommendations db user_id content_type subject difficulty_level limit =
           (if commit_succeeds db
            then Inr (hybrid_merge_recommendations content_based_recs collab_recs limit,
                      db\<lparr>recommendation_history :=
                            recommendation_history db @ pending db
                            @ map (history_of user_id)
                                (hybrid_merge_recommendations content_based_recs collab_recs limit),
                          pending := []\<rparr>)
            else Inl CommitError)"
  using assms by (simp add: get_recommendations_def Let_def record_recommendations_eq)

lemma example_get_user_preferences: "get_user_preferences (example_db ok) 7 = None"
  by (simp add: get_user_preferences_def example_db_fields)

lemma example_request:
  "get_recommendations (example_db True) 7 None None None 10 =
     Inr (example_final_recs,
          (example_db True)\<lparr>recommendation_history := map (history_of 7) example_final_recs,
                             pending := []\<rparr>)"
  by (simp add: get_recommendations_def Let_def example_get_user_preferences
      example_content_based example_collaborative record_recommendations_eq
      example_db_fields example_final_recs_def)

lemma example_final_recs_ids: "map content_id example_final_recs = [20]"
  by (simp add: example_final_recs_def hybrid_merge_recommendations_def merged_recs_of_def
      merge_content_based_step_def merge_collaborative_step_def
      content_based_recommendation_def collaborative_recommendation_def
      hybrid_recommendation_def sort_by_score_desc_def py_slice_to_def Let_def)

text \<open>
  Claim C1 as stated fails: with a storage that refuses the commit, the request of user 7
  ends in the commit's error although the merger has produced its list.
\<close>

theorem history_write_failure_counterexample:
  "get_recommendations (example_db False) 7 None None None 10 = Inl CommitError"
  by (simp add: get_recommendations_def Let_def example_get_user_preferences
      example_content_based example_collaborative record_recommendations_eq
      example_db_fields)

theorem history_write_failure_propagates_witness:
  "get_content_based_recommendations (example_db False) 7
       (get_user_preferences (example_db False) 7) None None None 10
     = Inr [content_based_recommendation 20 1]
   \<and> get_collaborative_recommendations (example_db False) 7 None None None 10
     = Inr [collaborative_recommendation (20, 3)]
   \<and> get_recommendations (example_db False) 7 None None None 10 = Inl CommitError"
proof -
  have cb: "get_content_based_recommendations (example_db False) 7
       (get_user_preferences (example_db False) 7) None None None 10
     = Inr [content_based_recommendation 20 1]"
    by (simp add: example_get_user_preferences example_content_based)
  have co: "get_collaborative_recommendations (example_db False) 7 None None None 10
     = Inr [collaborative_recommendation (20, 3)]"
    by (rule example_collaborative)
  from history_write_failure_propagates [OF cb co] cb co show ?thesis
    by (simp add: example_db_fields)
qed

section \<open>Properties of the metadata of a recommendation\<close>

lemma set_dict_set: "set (dict_set k v d) \<subseteq> insert (k, v) (set d)"
  by (induction d) (auto split: if_splits)

lemma component_source_content_based [simp]:
  "component_source (metadata (content_based_recommendation cid s))"
  by (simp add: component_source_def content_based_recommendation_def)

lemma component_source_collaborative [simp]:
  "component_source (metadata (collaborative_recommendation item))"
  by (simp add: component_source_def collaborative_recommendation_def)

lemma component_source_override:
  "component_source m' \<Longrightarrow> component_source (m ++ m')"
  by (auto simp: component_source_def map_add_def)

lemma content_based_loop_source:
  "content_based_loop interactions user_profile cvs acc = Inr recs \<Longrightarrow>
   \<forall>r \<in> set acc. component_source (metadata r) \<Longrightarrow>
   \<forall>r \<in> set recs. component_source (metadata r)"
proof (induction interactions user_profile cvs acc rule: content_based_loop.induct)
  case (1 interactions user_profile recommendations)
  then show ?case by simp
next
  case (2 interactions user_profile cid fv rest recommendations)
  then show ?case
    by (auto split: if_splits sum.splits)
qed

lemma py_sorted_source:
  "\<forall>r \<in> set recs. component_source (metadata r) \<Longrightarrow>
   \<forall>r \<in> set (py_slice_to limit (sort_by_score_desc recs)). component_source (metadata r)"
  using set_py_slice_to [of limit "sort_by_score_desc recs"]
  by (auto simp: set_sort_by_score_desc)

lemma get_content_based_recommendations_source:
  assumes "get_content_based_recommendations db u prefs ct sj dl limit = Inr recs"
  shows "\<forall>r \<in> set recs. component_source (metadata r)"
proof -
  let ?is = "get_user_interactions db u"
  let ?cvs = "get_content_feature_vectors db ct sj dl"
  show ?thesis
  proof (cases "(?is = [] \<and> prefs = None) \<or> ?cvs = []")
    case True
    with assms have "recs = []"
      by (auto simp: get_content_based_recommendations_def Let_def split: if_splits)
    then show ?thesis by simp
  next
    case False
    with assms obtain p rs where
      "content_based_loop ?is p ?cvs [] = Inr rs"
      "recs = py_slice_to limit (sort_by_score_desc rs)"
      by (auto simp: get_content_based_recommendations_def Let_def split: if_splits sum.splits)
    then show ?thesis
      using content_based_loop_source [of ?is p ?cvs "[]" rs] py_sorted_source [of rs limit]
      by simp
  qed
qed

lemma get_collaborative_recommendations_source:
  assumes "get_collaborative_recommendations db u ct sj dl limit = Inr recs"
  shows "\<forall>r \<in> set recs. component_source (metadata r)"
proof -
  have from_similar: "\<forall>r \<in> set rs. component_source (metadata r)"
    if "get_recommendations_from_similar_users db u su ct sj dl = Inr rs" for su rs
    using that
    by (auto simp: get_recommendations_from_similar_users_def Let_def split: sum.splits)
  from assms consider "recs = []"
    | su rs where "get_recommendations_from_similar_users db u su ct sj dl = Inr rs"
        "recs = py_slice_to limit (sort_by_score_desc rs)"
    by (auto simp: get_collaborative_recommendations_def Let_def split: if_splits sum.splits)
  then show ?thesis
  proof cases
    case 1
    then show ?thesis by simp
  next
    case 2
    with from_similar [of su rs] py_sorted_source [of rs limit] show ?thesis by simp
  qed
qed

lemma entries_source_dict_set:
  "entries_source m \<Longrightarrow> component_source (me_metadata e) \<Longrightarrow> entries_source (dict_set k e m)"
  using set_dict_set [of k e m] by (auto simp: entries_source_def)

lemma entries_source_content_based:
  "\<forall>r \<in> set cb. component_source (metadata r) \<Longrightarrow>
   entries_source (foldl merge_content_based_step [] cb)"
proof (induction cb rule: rev_induct)
  case Nil
  show ?case by (simp add: entries_source_def)
next
  case (snoc r cb)
  then show ?case
    by (simp add: merge_content_based_step_def entries_source_dict_set)
qed

lemma entries_source_collaborative:
  "\<forall>r \<in> set co. component_source (metadata r) \<Longrightarrow> entries_source m0 \<Longrightarrow>
   entries_source (foldl merge_collaborative_step m0 co)"
proof (induction co rule: rev_induct)
  case Nil
  then show ?case by simp
next
  case (snoc r co)
  then show ?case
    by (simp add: merge_collaborative_step_def entries_source_dict_set
        component_source_override split: option.splits)
qed

lemma hybrid_recommendation_source:
  "component_source (me_metadata e) \<Longrightarrow>
   recommendation_type (hybrid_recommendation (k, e)) = HYBRID
   \<and> component_source (metadata (hybrid_recommendation (k, e)))"
  by (simp add: hybrid_recommendation_def Let_def component_source_override)

lemma hybrid_merge_source:
  assumes "\<forall>r \<in> set cb. component_source (metadata r)"
    and "\<forall>r \<in> set co. component_source (metadata r)"
    and "r \<in> set (hybrid_merge_recommendations cb co limit)"
  shows "recommendation_type r = HYBRID \<and> component_source (metadata r)"
proof -
  from assms(3) hybrid_merge_subset obtain k e
    where ke: "(k, e) \<in> set (merged_recs_of cb co)" and r: "r = hybrid_recommendation (k, e)"
    by fastforce
  have "entries_source (merged_recs_of cb co)"
    unfolding merged_recs_of_def
    using assms(1,2) by (simp add: entries_source_collaborative entries_source_content_based)
  with ke have "component_source (me_metadata e)"
    by (force simp: entries_source_def)
  with r show ?thesis by (simp add: hybrid_recommendation_source)
qed

text \<open>
  Claim C9. Every recommendation that \<open>get_recommendations\<close> returns has the
  recommendation type \<open>HYBRID\<close>, and the \<open>recommendation_source\<close> entry of its metadata is
  \<open>content_based\<close> or \<open>collaborative\<close>, never \<open>hybrid\<close>: the component metadata is spread
  after the merger's own entries.
\<close>

theorem recommendation_source_not_hybrid:
  assumes "get_recommendations db user_id content_type subject difficulty_level limit
             = Inr (recs, db')"
    and "r \<in> set recs"
  shows "recommendation_type r = HYBRID
       \<and> component_source (metadata r)
       \<and> metadata r ''recommendation_source'' \<noteq> Some (MStr ''hybrid'')"
proof -
  from assms(1) obtain cb co where
    cb: "get_content_based_recommendations db user_id (get_user_preferences db user_id)
           content_type subject difficulty_level limit = Inr cb"
    and co: "get_collaborative_recommendations db user_id content_type subject
           difficulty_level limit = Inr co"
    and recs: "recs = hybrid_merge_recommendations cb co limit"
    by (auto simp: get_recommendations_def Let_def split: sum.splits)
  from cb have 1: "\<forall>r \<in> set cb. component_source (metadata r)"
    by (rule get_content_based_recommendations_source)
  from co have 2: "\<forall>r \<in> set co. component_source (metadata r)"
    by (rule get_collaborative_recommendations_source)
  from assms(2) recs have "r \<in> set (hybrid_merge_recommendations cb co limit)" by simp
  with 1 2 have "recommendation_type r = HYBRID \<and> component_source (metadata r)"
    by (rule hybrid_merge_source)
  then show ?thesis by (auto simp: component_source_def)
qed

theorem recommendation_source_not_hybrid_witness:
  "get_recommendations (example_db True) 7 None None None 10 =
     Inr (example_final_recs,
          (example_db True)\<lparr>recommendation_history := map (history_of 7) example_final_recs,
                             pending := []\<rparr>)
   \<and> hd example_final_recs \<in> set example_final_recs
   \<and> recommendation_type (hd example_final_recs) = HYBRID
   \<and> component_source (metadata (hd example_final_recs))
   \<and> metadata (hd example_final_recs) ''recommendation_source'' \<noteq> Some (MStr ''hybrid'')"
proof -
  from example_final_recs_ids have "example_final_recs \<noteq> []" by auto
  then have mem: "hd example_final_recs \<in> set example_final_recs" by simp
  from recommendation_source_not_hybrid [OF example_request mem] example_request mem
  show ?thesis by simp
qed

section \<open>Properties of the content-based scorer\<close>

lemma content_based_loop_ids:
  "content_based_loop interactions user_profile cvs acc = Inr recs \<Longrightarrow>
   content_id ` set recs
     \<subseteq> content_id ` set acc \<union> (fst ` set cvs - uci_content_id ` set interactions)"
proof (induction interactions user_profile cvs acc arbitrary: recs
    rule: content_based_loop.induct)
  case (1 interactions user_profile recommendations)
  then show ?case by simp
next
  case (2 interactions user_profile cid fv rest recommendations)
  show ?case
  proof (cases "cid \<in> uci_content_id ` set interactions")
    case True
    with 2 show ?thesis by auto
  next
    case False
    with "2.prems" obtain similarity
      where s: "calculate_similarity_score user_profile fv = Inr similarity"
      by (auto split: sum.splits)
    show ?thesis
    proof (cases "is_positive similarity")
      case True
      with False s "2.prems" have
        "content_based_loop interactions user_profile rest
           (recommendations @ [content_based_recommendation cid (the_real similarity)])
         = Inr recs" by simp
      from "2.IH"(2) [OF False s True this] False show ?thesis
        by (auto simp: content_based_recommendation_def)
    next
      case pos: False
      with False s "2.prems" have
        "content_based_loop interactions user_profile rest recommendations = Inr recs" by simp
      from "2.IH"(3) [OF False s pos this] show ?thesis by auto
    qed
  qed
qed

lemma set_get_user_interactions:
  "set (get_user_interactions db u)
     = {i \<in> set (user_content_interactions db). uci_user_id i = u}"
  by (auto simp: get_user_interactions_def)

text \<open>
  Claim C7. No recommendation of the content-based scorer carries a content id of an
  interaction of the user, whatever the stored vectors, filters and limit are.
\<close>

theorem content_based_excludes_interacted:
  assumes "get_content_based_recommendations db user_id user_prefs content_type subject
             difficulty_level limit = Inr recs"
    and "r \<in> set recs"
    and "i \<in> set (user_content_interactions db)"
    and "uci_user_id i = user_id"
  shows "content_id r \<noteq> uci_content_id i"
proof -
  let ?is = "get_user_interactions db user_id"
  let ?cvs = "get_content_feature_vectors db content_type subject difficulty_level"
  from assms(3,4) have i: "uci_content_id i \<in> uci_content_id ` set ?is"
    by (simp add: set_get_user_interactions)
  show ?thesis
  proof (cases "(?is = [] \<and> user_prefs = None) \<or> ?cvs = []")
    case True
    with assms(1) have "recs = []"
      by (auto simp: get_content_based_recommendations_def Let_def split: if_splits)
    with assms(2) show ?thesis by simp
  next
    case False
    with assms(1) obtain p rs where
      loop: "content_based_loop ?is p ?cvs [] = Inr rs"
      and recs: "recs = py_slice_to limit (sort_by_score_desc rs)"
      by (auto simp: get_content_based_recommendations_def Let_def split: if_splits sum.splits)
    from assms(2) recs set_py_slice_to [of limit "sort_by_score_desc rs"]
    have "r \<in> set rs" by (auto simp: set_sort_by_score_desc)
    with content_based_loop_ids [OF loop] have "content_id r \<notin> uci_content_id ` set ?is"
      by auto
    with i show ?thesis by auto
  qed
qed

theorem content_based_excludes_interacted_witness:
  "get_content_based_recommendations (example_db True) 7 None None None None 10
     = Inr [content_based_recommendation 20 1]
   \<and> content_based_recommendation 20 1 \<in> set [content_based_recommendation 20 1]
   \<and> hd example_interactions \<in> set (user_content_interactions (example_db True))
   \<and> uci_user_id (hd example_interactions) = 7
   \<and> content_id (content_based_recommendation 20 1) \<noteq> uci_content_id (hd example_interactions)"
proof -
  have mem: "content_based_recommendation 20 1 \<in> set [content_based_recommendation 20 1]"
    by simp
  have i: "hd example_interactions \<in> set (user_content_interactions (example_db True))"
    by (simp add: example_db_fields example_interactions_def)
  have u: "uci_user_id (hd example_interactions) = 7"
    by (simp add: example_interactions_def)
  from content_based_excludes_interacted [OF example_content_based mem i u]
    example_content_based i u
  show ?thesis by simp
qed

section \<open>Properties of the similarity score\<close>







section \<open>A dimension mismatch in the content-based scorer\<close>

lemma calculate_similarity_score_error:
  "calculate_similarity_score a b = Inl e \<Longrightarrow> e = ValueError"
  by (auto simp: calculate_similarity_score_def cosine_def split: if_splits)

lemma calculate_similarity_score_mismatch:
  "a \<noteq> [] \<Longrightarrow> b \<noteq> [] \<Longrightarrow> length a \<noteq> length b \<Longrightarrow>
   calculate_similarity_score a b = Inl ValueError"
  by (simp add: calculate_similarity_score_def cosine_def)

lemma content_based_loop_mismatch:
  assumes "(cid, v) \<in> set cvs" and "cid \<notin> uci_content_id ` set interactions"
    and "user_profile \<noteq> []" and "v \<noteq> []" and "length v \<noteq> length user_profile"
  shows "content_based_loop interactions user_profile cvs acc = Inl ValueError"
  using assms
proof (induction interactions user_profile cvs acc rule: content_based_loop.induct)
  case (1 interactions user_profile recommendations)
  then show ?case by simp
next
  case (2 interactions user_profile cid' fv rest recommendations)
  show ?case
  proof (cases "cid' \<in> uci_content_id ` set interactions")
    case True
    with 2 show ?thesis by auto
  next
    case False
    show ?thesis
    proof (cases "calculate_similarity_score user_profile fv")
      case (Inl e)
      with False calculate_similarity_score_error [OF Inl] show ?thesis by simp
    next
      case (Inr similarity)
      have "(cid, v) \<noteq> (cid', fv)"
      proof
        assume "(cid, v) = (cid', fv)"
        with "2.prems" have "calculate_similarity_score user_profile fv = Inl ValueError"
          by (simp add: calculate_similarity_score_mismatch)
        with Inr show False by simp
      qed
      with "2.prems" have rest: "(cid, v) \<in> set rest" by auto
      show ?thesis
      proof (cases "is_positive similarity")
        case True
        from "2.IH"(2) [OF False Inr True rest "2.prems"(2-5)] False Inr True
        show ?thesis by simp
      next
        case pos: False
        from "2.IH"(3) [OF False Inr pos rest "2.prems"(2-5)] False Inr pos
        show ?thesis by simp
      qed
    qed
  qed
qed

text \<open>
  Claim C2, as amended. When the user's profile is not empty and a candidate the user has
  not interacted with has a stored vector that is not empty and of another length than the
  profile, the comparison raises, and the error is not caught: the content-based scorer
  fails as a whole, and so does the request.
\<close>

theorem dimension_mismatch_aborts_request:
  assumes "calculate_user_profile db user_id (get_user_interactions db user_id)
             (get_user_preferences db user_id) = Inr user_profile"
    and "user_profile \<noteq> []"
    and "(cid, v) \<in> set (get_content_feature_vectors db content_type subject difficulty_level)"
    and "cid \<notin> uci_content_id ` set (get_user_interactions db user_id)"
    and "v \<noteq> []"
    and "length v \<noteq> length user_profile"
  shows "get_content_based_recommendations db user_id (get_user_preferences db user_id)
           content_type subject difficulty_level limit = Inl ValueError
       \<and> get_recommendations db user_id content_type subject difficulty_level limit
           = Inl ValueError"
proof -
  let ?is = "get_user_interactions db user_id"
  let ?prefs = "get_user_preferences db user_id"
  let ?cvs = "get_content_feature_vectors db content_type subject difficulty_level"
  from assms(1,2) have signal: "\<not> (?is = [] \<and> ?prefs = None)"
    by (auto simp: calculate_user_profile_def split: if_splits)
  from assms(3) have cvs: "?cvs \<noteq> []" by auto
  have "content_based_loop ?is user_profile ?cvs [] = Inl ValueError"
    using assms(3,4,2,5,6) by (rule content_based_loop_mismatch)
  with signal cvs assms(1)
  have cb: "get_content_based_recommendations db user_id ?prefs content_type subject
              difficulty_level limit = Inl ValueError"
    by (auto simp: get_content_based_recommendations_def Let_def)
  then show ?thesis by (simp add: get_recommendations_def Let_def)
qed

lemma example_mismatch_db_fields:
  "user_preferences example_mismatch_db = []"
  "user_content_interactions example_mismatch_db = example_interactions"
  "content_feature_vectors example_mismatch_db = example_mismatch_vectors"
  by (simp_all add: example_mismatch_db_def)

lemma example_mismatch_interactions:
  "get_user_interactions example_mismatch_db 7 =
     [\<lparr>uci_user_id = 7, uci_content_id = 10, interaction_type = ''like'',
       engagement_score = 1, created_at = 1\<rparr>]"
  by (simp add: get_user_interactions_def example_mismatch_db_fields example_interactions_def)

lemma example_mismatch_preferences: "get_user_preferences example_mismatch_db 7 = None"
  by (simp add: get_user_preferences_def example_mismatch_db_fields)

lemma example_mismatch_profile:
  "calculate_user_profile example_mismatch_db 7 (get_user_interactions example_mismatch_db 7)
     (get_user_preferences example_mismatch_db 7) = Inr [1, 0]"
  by (simp add: example_mismatch_interactions example_mismatch_preferences
      calculate_user_profile_def interacted_content_vectors_def vectors_dict_def
      example_mismatch_db_fields example_mismatch_vectors_def
      interaction_weights_get_def interaction_weights_def np_scale_def np_div_def
      finish_profile_def Let_def)

lemma example_mismatch_candidates:
  "get_content_feature_vectors example_mismatch_db None None None
     = [(10, [1, 0]), (20, [1]), (30, [1, 0])]"
  by (simp add: get_content_feature_vectors_def filter_matches_def vectors_dict_def
      example_mismatch_db_fields example_mismatch_vectors_def)

text \<open>
  Claim C2 as stated fails: with the profile \<open>[1, 0]\<close> and the candidate 20 stored with
  the vector \<open>[1]\<close>, the request ends in \<^verbatim>\<open>ValueError\<close>; the candidate 30, which
  matches the profile, is not returned either.
\<close>

theorem dimension_mismatch_counterexample:
  "get_recommendations example_mismatch_db 7 None None None 10 = Inl ValueError"
  by (simp add: get_recommendations_def get_content_based_recommendations_def Let_def
      example_mismatch_interactions example_mismatch_preferences
      example_mismatch_profile [unfolded example_mismatch_interactions example_mismatch_preferences]
      example_mismatch_candidates calculate_similarity_score_def cosine_def)

theorem dimension_mismatch_aborts_request_witness:
  "calculate_user_profile example_mismatch_db 7 (get_user_interactions example_mismatch_db 7)
     (get_user_preferences example_mismatch_db 7) = Inr [1, 0]
   \<and> [1, 0 :: real] \<noteq> []
   \<and> (20, [1]) \<in> set (get_content_feature_vectors example_mismatch_db None None None)
   \<and> 20 \<notin> uci_content_id ` set (get_user_interactions example_mismatch_db 7)
   \<and> [1 :: real] \<noteq> []
   \<and> length [1 :: real] \<noteq> length [1, 0 :: real]
   \<and> get_content_based_recommendations example_mismatch_db 7
         (get_user_preferences example_mismatch_db 7) None None None 10 = Inl ValueError
   \<and> get_recommendations example_mismatch_db 7 None None None 10 = Inl ValueError"
proof -
  have 2: "[1, 0 :: real] \<noteq> []" by simp
  have 3: "(20, [1]) \<in> set (get_content_feature_vectors example_mismatch_db None None None)"
    by (simp add: example_mismatch_candidates)
  have 4: "20 \<notin> uci_content_id ` set (get_user_interactions example_mismatch_db 7)"
    by (simp add: example_mismatch_interactions)
  have 5: "[1 :: real] \<noteq> []" by simp
  have 6: "length [1 :: real] \<noteq> length [1, 0 :: real]" by simp
  from dimension_mismatch_aborts_request [OF example_mismatch_profile 2 3 4 5 6, of 10]
    example_mismatch_profile 3 4
  show ?thesis by simp
qed

section \<open>Properties of the profile builder\<close>

lemma found_vectors_Cons:
  "found_vectors cv (i # rest) =
     (case map_of cv (uci_content_id i) of
        None \<Rightarrow> found_vectors cv rest
      | Some v \<Rightarrow> v # found_vectors cv rest)"
  by (cases "map_of cv (uci_content_id i)") (simp_all add: found_vectors_def)

lemma profile_loop_no_vectors:
  "found_vectors cv interactions = [] \<Longrightarrow> profile_loop cv interactions st = Inr st"
proof (induction interactions arbitrary: st)
  case Nil
  show ?case by simp
next
  case (Cons i rest)
  obtain pv tw where st: "st = (pv, tw)" by (cases st)
  from Cons.prems have none: "map_of cv (uci_content_id i) = None"
    and rest: "found_vectors cv rest = []"
    by (auto simp: found_vectors_Cons split: option.splits)
  with Cons.IH [OF rest] st show ?case by simp
qed

lemma np_iadd_zeros:
  "np_iadd p (np_scale v 0) = Inr p' \<Longrightarrow> p' = p"
proof -
  have zip0: "map2 (+) p (replicate (length p) 0) = p" for p :: "real list"
    by (induction p) simp_all
  have scale0: "np_scale v 0 = replicate (length v) 0"
    by (simp add: np_scale_def map_replicate_const)
  assume a: "np_iadd p (np_scale v 0) = Inr p'"
  show ?thesis
  proof (cases "length p = length v")
    case True
    with a scale0 zip0 [of p] show ?thesis by (simp add: np_iadd_def)
  next
    case False
    with a scale0 have "length v = 1" and "p' = map (\<lambda>x. x + hd (replicate (length v) 0)) p"
      by (auto simp: np_iadd_def split: if_splits)
    then show ?thesis by simp
  qed
qed

lemma profile_loop_zero_weights_some:
  "\<forall>i \<in> set interactions. interaction_weight i = 0 \<Longrightarrow>
   profile_loop cv interactions (Some p, tw) = Inr st \<Longrightarrow> st = (Some p, tw)"
proof (induction interactions arbitrary: st)
  case Nil
  then show ?case by simp
next
  case (Cons i rest)
  from Cons.prems(1) have w: "interaction_weights_get (interaction_type i) * engagement_score i = 0"
    and rest: "\<forall>i \<in> set rest. interaction_weight i = 0"
    by (simp_all add: interaction_weight_def)
  show ?case
  proof (cases "map_of cv (uci_content_id i)")
    case None
    with Cons.prems(2) Cons.IH [OF rest] show ?thesis by simp
  next
    case (Some v)
    with Cons.prems(2) w obtain p' where p': "np_iadd p (np_scale v 0) = Inr p'"
      and loop: "profile_loop cv rest (Some p', tw) = Inr st"
      by (auto simp: Let_def split: sum.splits)
    from np_iadd_zeros [OF p'] loop Cons.IH [OF rest] show ?thesis by simp
  qed
qed

lemma profile_loop_zero_weights_none:
  "\<forall>i \<in> set interactions. interaction_weight i = 0 \<Longrightarrow>
   found_vectors cv interactions \<noteq> [] \<Longrightarrow>
   profile_loop cv interactions (None, tw) = Inr st \<Longrightarrow>
   st = (Some (replicate (length (hd (found_vectors cv interactions))) 0), tw)"
proof (induction interactions)
  case Nil
  then show ?case by (simp add: found_vectors_def)
next
  case (Cons i rest)
  from Cons.prems(1) have w: "interaction_weights_get (interaction_type i) * engagement_score i = 0"
    and rest: "\<forall>i \<in> set rest. interaction_weight i = 0"
    by (simp_all add: interaction_weight_def)
  show ?case
  proof (cases "map_of cv (uci_content_id i)")
    case None
    with Cons.prems Cons.IH [OF rest] show ?thesis by (simp add: found_vectors_Cons)
  next
    case (Some v)
    with Cons.prems(3) w
    have "profile_loop cv rest (Some (np_scale v 0), tw) = Inr st" by (simp add: Let_def)
    from profile_loop_zero_weights_some [OF rest this] Some show ?thesis
      by (simp add: found_vectors_Cons np_scale_def map_replicate_const)
  qed
qed

lemma finish_profile_eq:
  "finish_profile user_prefs (pv, tw) =
     Inr (case pv of None \<Rightarrow> [] | Some p \<Rightarrow> if 0 < tw then np_div p tw else p)"
  by (simp add: finish_profile_def calculate_preference_vector_def Let_def
      split: option.splits)

text \<open>
  Claim C3, as amended. When no interacted content has a stored feature vector, the
  interaction profile is undefined and the final profile is the empty vector. When a stored
  vector is found and every per-interaction weight is zero, the interaction profile is not
  undefined: the profile that is returned is the weighted sum left undivided, the zero
  vector of the length of the first stored vector found. Both hold with and without a
  preference record, whose vector is never defined.
\<close>

theorem zero_weight_profile:
  "(found_vectors (interacted_content_vectors db interactions) interactions = [] \<longrightarrow>
      calculate_user_profile db user_id interactions user_prefs = Inr [])
   \<and> (found_vectors (interacted_content_vectors db interactions) interactions \<noteq> []
      \<and> (\<forall>i \<in> set interactions. interaction_weight i = 0)
      \<and> calculate_user_profile db user_id interactions user_prefs = Inr p \<longrightarrow>
      p = replicate
            (length (hd (found_vectors (interacted_content_vectors db interactions)
                           interactions))) 0)"
proof (intro conjI impI)
  let ?cv = "interacted_content_vectors db interactions"
  assume "found_vectors ?cv interactions = []"
  then have "profile_loop ?cv interactions (None, 0.0) = Inr (None, 0.0)"
    by (rule profile_loop_no_vectors)
  then show "calculate_user_profile db user_id interactions user_prefs = Inr []"
    by (simp add: calculate_user_profile_def finish_profile_eq)
next
  let ?cv = "interacted_content_vectors db interactions"
  assume a: "found_vectors ?cv interactions \<noteq> []
      \<and> (\<forall>i \<in> set interactions. interaction_weight i = 0)
      \<and> calculate_user_profile db user_id interactions user_prefs = Inr p"
  then have ne: "interactions \<noteq> []" by (auto simp: found_vectors_def)
  with a obtain st where loop: "profile_loop ?cv interactions (None, 0) = Inr st"
    and fin: "finish_profile user_prefs st = Inr p"
    by (auto simp: calculate_user_profile_def split: sum.splits)
  from a loop have "st = (Some (replicate (length (hd (found_vectors ?cv interactions))) 0), 0)"
    by (intro profile_loop_zero_weights_none) simp_all
  with fin show "p = replicate (length (hd (found_vectors ?cv interactions))) 0"
    by (simp add: finish_profile_eq)
qed

lemma example_zero_db_fields:
  "user_preferences example_zero_db = []"
  "user_content_interactions example_zero_db =
     [\<lparr>uci_user_id = 7, uci_content_id = 10, interaction_type = ''view'',
       engagement_score = 0, created_at = 1\<rparr>]"
  "content_feature_vectors example_zero_db = example_vectors"
  by (simp_all add: example_zero_db_def)

lemma example_zero_interactions:
  "get_user_interactions example_zero_db 7 =
     [\<lparr>uci_user_id = 7, uci_content_id = 10, interaction_type = ''view'',
       engagement_score = 0, created_at = 1\<rparr>]"
  by (simp add: get_user_interactions_def example_zero_db_fields)

lemma example_zero_profile:
  "calculate_user_profile example_zero_db 7 (get_user_interactions example_zero_db 7) None
     = Inr [0, 0]"
  by (simp add: example_zero_interactions calculate_user_profile_def
      interacted_content_vectors_def vectors_dict_def example_zero_db_fields
      example_vectors_def finish_profile_eq np_scale_def)

text \<open>
  Claim C3 as stated fails: one view with the engagement score \<open>0\<close> of a content with
  the stored vector \<open>[1, 0]\<close> has the weight zero, there is no preference record, and the
  profile is \<open>[0, 0]\<close>, not the empty vector.
\<close>

theorem zero_weight_profile_counterexample:
  "interaction_weight (hd (get_user_interactions example_zero_db 7)) = 0
   \<and> get_user_preferences example_zero_db 7 = None
   \<and> calculate_user_profile example_zero_db 7 (get_user_interactions example_zero_db 7)
        (get_user_preferences example_zero_db 7) = Inr [0, 0]
   \<and> [0, 0 :: real] \<noteq> []"
proof -
  have w: "interaction_weight (hd (get_user_interactions example_zero_db 7)) = 0"
    by (simp add: example_zero_interactions interaction_weight_def)
  have prefs: "get_user_preferences example_zero_db 7 = None"
    by (simp add: get_user_preferences_def example_zero_db_fields)
  from w prefs example_zero_profile show ?thesis by simp
qed

lemma example_zero_found:
  "found_vectors
     (interacted_content_vectors example_zero_db (get_user_interactions example_zero_db 7))
     (get_user_interactions example_zero_db 7) = [[1, 0]]"
  by (simp add: example_zero_interactions interacted_content_vectors_def vectors_dict_def
      example_zero_db_fields example_vectors_def found_vectors_def)

lemma example_no_vectors_found:
  "found_vectors
     (interacted_content_vectors (example_zero_db\<lparr>content_feature_vectors := []\<rparr>)
        (get_user_interactions example_zero_db 7))
     (get_user_interactions example_zero_db 7) = []"
  by (simp add: example_zero_interactions interacted_content_vectors_def vectors_dict_def
      found_vectors_def)

theorem zero_weight_profile_witness:
  "found_vectors
     (interacted_content_vectors (example_zero_db\<lparr>content_feature_vectors := []\<rparr>)
        (get_user_interactions example_zero_db 7))
     (get_user_interactions example_zero_db 7) = []
   \<and> calculate_user_profile (example_zero_db\<lparr>content_feature_vectors := []\<rparr>) 7
        (get_user_interactions example_zero_db 7) None = Inr []
   \<and> found_vectors
        (interacted_content_vectors example_zero_db (get_user_interactions example_zero_db 7))
        (get_user_interactions example_zero_db 7) \<noteq> []
   \<and> list_all (\<lambda>i. interaction_weight i = 0) (get_user_interactions example_zero_db 7)
   \<and> calculate_user_profile example_zero_db 7 (get_user_interactions example_zero_db 7) None
        = Inr [0, 0]
   \<and> [0, 0 :: real]
        = replicate
            (length (hd (found_vectors
               (interacted_content_vectors example_zero_db
                  (get_user_interactions example_zero_db 7))
               (get_user_interactions example_zero_db 7)))) 0"
proof -
  let ?is = "get_user_interactions example_zero_db 7"
  have zero: "\<forall>i \<in> set ?is. interaction_weight i = 0"
    by (simp add: example_zero_interactions interaction_weight_def)
  have found: "found_vectors (interacted_content_vectors example_zero_db ?is) ?is \<noteq> []"
    by (simp add: example_zero_found)
  from zero_weight_profile
         [of "example_zero_db\<lparr>content_feature_vectors := []\<rparr>" ?is 7 None "[]"]
       example_no_vectors_found
  have 1: "calculate_user_profile (example_zero_db\<lparr>content_feature_vectors := []\<rparr>) 7
             ?is None = Inr []" by simp
  from zero_weight_profile [of example_zero_db ?is 7 None "[0, 0]"]
       found zero example_zero_profile
  have 2: "[0, 0 :: real]
        = replicate (length (hd (found_vectors
               (interacted_content_vectors example_zero_db ?is) ?is))) 0" by blast
  from zero have 3: "list_all (\<lambda>i. interaction_weight i = 0) ?is"
    by (simp add: list_all_iff)
  from 1 2 3 found example_no_vectors_found example_zero_profile show ?thesis by blast
qed

section \<open>The weight of an unknown interaction type\<close>

lemma interaction_weights_get_unknown:
  "t \<notin> {''view'', ''complete'', ''like'', ''bookmark''} \<Longrightarrow> interaction_weights_get t = 1"
  by (simp add: interaction_weights_get_def interaction_weights_def)

lemma interaction_weights_get_view: "interaction_weights_get ''view'' = 1"
  by (simp add: interaction_weights_get_def interaction_weights_def)

lemma as_view_fields [simp]:
  "interaction_weights_get (interaction_type (as_view i))
     = interaction_weights_get (interaction_type i)"
  "uci_content_id (as_view i) = uci_content_id i"
  "uci_user_id (as_view i) = uci_user_id i"
  "engagement_score (as_view i) = engagement_score i"
proof -
  show "interaction_weights_get (interaction_type (as_view i))
     = interaction_weights_get (interaction_type i)"
  proof (cases "interaction_type i \<in> {''view'', ''complete'', ''like'', ''bookmark''}")
    case True
    then show ?thesis by (simp add: as_view_def)
  next
    case False
    then have "interaction_weights_get (interaction_type i) = 1"
      by (rule interaction_weights_get_unknown)
    with False show ?thesis by (simp add: as_view_def interaction_weights_get_view)
  qed
qed (simp_all add: as_view_def)

lemma profile_loop_as_view:
  "profile_loop cv (map as_view interactions) st = profile_loop cv interactions st"
proof (induction interactions arbitrary: st)
  case Nil
  show ?case by simp
next
  case (Cons i rest)
  obtain pv tw where st: "st = (pv, tw)" by (cases st)
  show ?case unfolding st
    by (simp add: Cons.IH Let_def split: option.splits sum.splits)
qed

lemma calculate_user_profile_as_view:
  "calculate_user_profile db u (map as_view interactions) prefs
     = calculate_user_profile db u interactions prefs"
proof -
  have "map uci_content_id (map as_view interactions) = map uci_content_id interactions"
    by simp
  then have "interacted_content_vectors db (map as_view interactions)
     = interacted_content_vectors db interactions"
    unfolding interacted_content_vectors_def by metis
  then show ?thesis
    by (simp add: calculate_user_profile_def profile_loop_as_view)
qed

lemma create_interaction_vector_as_view:
  "create_interaction_vector (map as_view interactions) ids
     = create_interaction_vector interactions ids"
  by (simp add: create_interaction_vector_def foldl_map cong: option.case_cong)

lemma content_scores_loop_as_view:
  "content_scores_loop ucids w (map as_view interactions) cs
     = content_scores_loop ucids w interactions cs"
  by (induction interactions arbitrary: cs) (simp_all add: Let_def split: option.splits)

text \<open>
  Claim C10. The weight lookup is total: a type that is none of view, complete, like and
  bookmark gets the weight \<open>1.0\<close>, the weight of a view. Profile building,
  interaction-vector construction and collaborative candidate aggregation read the type
  through this lookup only: each gives the same result, value or error, when every
  interaction of an unknown type is replaced by a view.
\<close>

theorem unknown_interaction_type_is_view:
  "(t \<notin> {''view'', ''complete'', ''like'', ''bookmark''} \<longrightarrow>
      interaction_weights_get t = 1.0
    \<and> interaction_weights_get t = interaction_weights_get ''view'')
   \<and> calculate_user_profile db user_id (map as_view interactions) user_prefs
       = calculate_user_profile db user_id interactions user_prefs
   \<and> create_interaction_vector (map as_view interactions) content_ids
       = create_interaction_vector interactions content_ids
   \<and> content_scores_loop user_content_ids similar_user_weights (map as_view interactions)
         content_scores
       = content_scores_loop user_content_ids similar_user_weights interactions content_scores"
  by (simp add: interaction_weights_get_unknown interaction_weights_get_view
      calculate_user_profile_as_view create_interaction_vector_as_view
      content_scores_loop_as_view)

theorem unknown_interaction_type_is_view_witness:
  "''share'' \<notin> {''view'', ''complete'', ''like'', ''bookmark''}
   \<and> interaction_weights_get ''share'' = 1.0
   \<and> interaction_weights_get ''share'' = interaction_weights_get ''view''
   \<and> calculate_user_profile (example_db True) 7 (map as_view [example_share]) None
       = calculate_user_profile (example_db True) 7 [example_share] None
   \<and> create_interaction_vector (map as_view [example_share]) {10}
       = create_interaction_vector [example_share] {10}
   \<and> create_interaction_vector [example_share] {10} = [1 / 2]
   \<and> content_scores_loop {} [(7, 1)] (map as_view [example_share]) []
       = content_scores_loop {} [(7, 1)] [example_share] []
   \<and> content_scores_loop {} [(7, 1)] [example_share] [] = Inr [(10, 1 / 2)]"
proof -
  have t: "''share'' \<notin> {''view'', ''complete'', ''like'', ''bookmark''}" by simp
  have w: "interaction_weights_get ''share'' = 1"
    by (simp add: interaction_weights_get_def interaction_weights_def)
  have v: "create_interaction_vector [example_share] {10} = [1 / 2]"
    by (simp add: create_interaction_vector_def content_id_to_index_def example_share_def w)
  have c: "content_scores_loop {} [(7, 1)] [example_share] [] = Inr [(10, 1 / 2)]"
    by (simp add: example_share_def w)
  from unknown_interaction_type_is_view
         [of "''share''" "example_db True" 7 "[example_share]" None "{10}" "{}" "[(7, 1)]" "[]"]
       t v c
  show ?thesis by simp
qed

section \<open>The filters in the collaborative scorer\<close>

lemma get_collaborative_recommendations_filters:
  "get_collaborative_recommendations db u ct sj dl limit
     = get_collaborative_recommendations db u None None None limit"
proof -
  have eq: "get_recommendations_from_similar_users db u su ct sj dl
     = get_recommendations_from_similar_users db u su None None None" for su
    by (simp add: get_recommendations_from_similar_users_def)
  show ?thesis
    unfolding get_collaborative_recommendations_def eq by (rule refl)
qed

text \<open>
  Claim C4 does not hold of the code: the collaborative scorer takes the three filters and
  never reads them. In the example the request of user 7 filters on the content type
  \<open>story\<close>; the filtered query of the content-based scorer leaves out content 20, whose
  stored metadata says \<open>video\<close>, and the collaborative scorer returns content 20 all the
  same, with the result it gives without any filter.
\<close>

theorem collaborative_scorer_ignores_filters:
  "cfv_content_id (example_vectors ! 1) = 20
   \<and> \<not> filter_matches ''content_type'' (Some ''story'') (example_vectors ! 1)
   \<and> get_content_feature_vectors (example_db True) (Some ''story'') None None = [(10, [1, 0])]
   \<and> get_collaborative_recommendations (example_db True) 7 (Some ''story'') None None 10
       = Inr [collaborative_recommendation (20, 3)]
   \<and> get_collaborative_recommendations (example_db True) 7 (Some ''story'') None None 10
       = get_collaborative_recommendations (example_db True) 7 None None None 10"
proof -
  have 1: "cfv_content_id (example_vectors ! 1) = 20"
    by (simp add: example_vectors_def)
  have 2: "\<not> filter_matches ''content_type'' (Some ''story'') (example_vectors ! 1)"
    by (simp add: example_vectors_def filter_matches_def)
  have 3: "get_content_feature_vectors (example_db True) (Some ''story'') None None
             = [(10, [1, 0])]"
    by (simp add: get_content_feature_vectors_def filter_matches_def vectors_dict_def
        example_db_fields example_vectors_def)
  from 1 2 3 show ?thesis
    by (simp add: example_collaborative)
qed

end
